theory Spec2Isabelle
  imports Complex_Main "HOL-Library.Word"
begin

unbundle bit_operations_syntax

section \<open>The data model (types.ts)\<close>

datatype LearningMode = GUIDED_TRANSLATION | FREE_TALK

record Scenario =
  id_sc :: string
  title :: string
  description :: string
  icon :: string

text \<open>The union type \<^verbatim>\<open>'user' | 'model'\<close> of \<^verbatim>\<open>ChatMessage.role\<close>.\<close>

datatype Role = User | Model

text \<open>
  \<^verbatim>\<open>isPartial?\<close> and \<^verbatim>\<open>correction?\<close> are optional fields: \<open>None\<close> is JavaScript's
  \<^verbatim>\<open>undefined\<close>. The fields \<^verbatim>\<open>id\<close>, \<^verbatim>\<open>role\<close> and \<^verbatim>\<open>text\<close> carry the suffix \<open>_cm\<close>.
\<close>

record ChatMessage =
  id_cm :: string
  role_cm :: Role
  text_cm :: string
  isPartial :: "bool option"
  correction :: "string option"

datatype ConnectionStatus = Disconnected | Connecting | Connected | Error

section \<open>The component state (App.tsx, lines 22--41)\<close>

datatype Step = Setup | Session

datatype AudioMode = Listening | Speaking | Idle

text \<open>
  What the program observes of the browser objects it holds: an \<^verbatim>\<open>AudioContext\<close> has its
  sample rate and is open or closed; a media stream and a script processor node are only
  held and released; the promise of the live session is determined by the scenario and
  the learning mode that the system instruction was built from.
\<close>

record AudioContext =
  sampleRate :: nat
  closed :: bool

datatype MediaStream = MediaStream

datatype ScriptProcessorNode = ScriptProcessorNode

datatype LiveSession = LiveSession LearningMode Scenario

text \<open>
  An \<^verbatim>\<open>AudioBufferSourceNode\<close> is an object with identity: the \<open>n\<close>-th node that
  \<^verbatim>\<open>createBufferSource\<close> returns is the number \<open>n\<close>. A JavaScript \<^verbatim>\<open>Set\<close> iterates in
  insertion order: \<open>sourcesRef\<close> is the list of its members in that order. The first
  group of fields is the React state, the second the refs. The last group is the part
  of the browser that the program writes to and never reads: \<open>nodeCount\<close> counts the
  source nodes created,
  \<open>started\<close> logs every call \<^verbatim>\<open>source.start(when)\<close> as (node, when, duration of its
  buffer), \<open>stopped\<close> holds the nodes that \<^verbatim>\<open>stop()\<close> was called on, and \<open>timeouts\<close>
  counts the callbacks \<^verbatim>\<open>() => setAudioMode('listening')\<close> that \<^verbatim>\<open>setTimeout\<close> has
  queued and that have not run yet.
\<close>

record AppState =
  currentStep :: Step
  selectedScenario :: "Scenario option"
  customScenario :: string
  learningMode :: LearningMode
  status :: ConnectionStatus
  messages :: "ChatMessage list"
  audioMode :: AudioMode

  sessionRef :: "LiveSession option"
  inputContextRef :: "AudioContext option"
  outputContextRef :: "AudioContext option"
  nextStartTimeRef :: real
  sourcesRef :: "nat list"
  streamRef :: "MediaStream option"
  scriptProcessorRef :: "ScriptProcessorNode option"
  currentInputTransRef :: string
  currentOutputTransRef :: string

  nodeCount :: nat
  started :: "(nat \<times> real \<times> real) list"
  stopped :: "nat set"
  timeouts :: nat

definition INPUT_SAMPLE_RATE :: nat where
  "INPUT_SAMPLE_RATE = 16000"

definition OUTPUT_SAMPLE_RATE :: nat where
  "OUTPUT_SAMPLE_RATE = 24000"

text \<open>The state of a freshly mounted component: the initial values of lines 22--41.\<close>

definition initialState :: AppState where
  "initialState =
     \<lparr>currentStep = Setup, selectedScenario = None, customScenario = [],
      learningMode = FREE_TALK, status = Disconnected, messages = [], audioMode = Idle,
      sessionRef = None, inputContextRef = None, outputContextRef = None,
      nextStartTimeRef = 0, sourcesRef = [], streamRef = None, scriptProcessorRef = None,
      currentInputTransRef = [], currentOutputTransRef = [],
      nodeCount = 0, started = [], stopped = {}, timeouts = 0\<rparr>"

section \<open>The message log: updateLastMessage (lines 242--259)\<close>

text \<open>
  \<open>prev[prev.length - 1]\<close> is \<^verbatim>\<open>undefined\<close> on the empty log, and both that and an
  \<^verbatim>\<open>isPartial\<close> that is \<^verbatim>\<open>undefined\<close> or \<^verbatim>\<open>false\<close> are falsy; \<open>prev.slice(0, -1)\<close> is
  \<open>butlast prev\<close>. The spread \<^verbatim>\<open>{ ...lastMsg, text, isPartial }\<close> keeps \<^verbatim>\<open>id\<close>, \<^verbatim>\<open>role\<close> and
  \<^verbatim>\<open>correction\<close>. \<open>dateNow\<close> is the value of \<^verbatim>\<open>Date.now().toString()\<close>.
\<close>

definition updateLastMessage ::
  "string \<Rightarrow> Role \<Rightarrow> string \<Rightarrow> bool \<Rightarrow> ChatMessage list \<Rightarrow> ChatMessage list" where
  "updateLastMessage dateNow role txt partial prev =
     (if prev \<noteq> [] \<and> role_cm (last prev) = role \<and> isPartial (last prev) = Some True
      then butlast prev @ [(last prev)\<lparr>text_cm := txt, isPartial := Some partial\<rparr>]
      else prev @ [\<lparr>id_cm = dateNow, role_cm = role, text_cm = txt,
                    isPartial = Some partial, correction = None\<rparr>])"

section \<open>Server messages and their transcriptions (lines 214--238)\<close>

text \<open>
  The fields of \<^verbatim>\<open>serverContent\<close> that the handler reads. \<open>audioData\<close> is the value of the
  optional chain \<^verbatim>\<open>modelTurn?.parts?.[0]?.inlineData?.data\<close>. The \<^verbatim>\<open>text\<close> of a
  transcription is optional in the SDK's type; appending \<^verbatim>\<open>undefined\<close> to a string
  appends the nine characters of its name.
\<close>

record ServerContent =
  audioData :: "string option"
  inputTranscription :: "string option option"
  outputTranscription :: "string option option"
  turnComplete :: bool

type_synonym LiveServerMessage = "ServerContent option"

definition js_concat :: "string \<Rightarrow> string option \<Rightarrow> string" where
  "js_concat s t = s @ (case t of None \<Rightarrow> ''undefined'' | Some x \<Rightarrow> x)"

text \<open>
  Lines 215--225, one equation per speaker: the fragment is appended to the speaker's
  buffer and the whole buffer is shown as a partial message. Only the user's branch
  sets the indicator.
\<close>

fun appendPartial :: "string \<Rightarrow> Role \<Rightarrow> string option \<Rightarrow> AppState \<Rightarrow> AppState" where
  "appendPartial dateNow User fragment s =
     (let buf = js_concat (currentInputTransRef s) fragment
      in s\<lparr>audioMode := Listening, currentInputTransRef := buf,
           messages := updateLastMessage dateNow User buf True (messages s)\<rparr>)"
| "appendPartial dateNow Model fragment s =
     (let buf = js_concat (currentOutputTransRef s) fragment
      in s\<lparr>currentOutputTransRef := buf,
           messages := updateLastMessage dateNow Model buf True (messages s)\<rparr>)"

text \<open>
  Lines 229--236, one equation per speaker: a non-empty buffer (a truthy string) is
  written to the log as a final message and emptied.
\<close>

fun commit :: "string \<Rightarrow> Role \<Rightarrow> AppState \<Rightarrow> AppState" where
  "commit dateNow User s =
     (if currentInputTransRef s \<noteq> []
      then s\<lparr>messages := updateLastMessage dateNow User (currentInputTransRef s) False (messages s),
             currentInputTransRef := []\<rparr>
      else s)"
| "commit dateNow Model s =
     (if currentOutputTransRef s \<noteq> []
      then s\<lparr>messages := updateLastMessage dateNow Model (currentOutputTransRef s) False (messages s),
             currentOutputTransRef := []\<rparr>
      else s)"

text \<open>
  Parts 2 and 3 of the handler, in the order of the source. They run in one task, and
  one value of \<^verbatim>\<open>Date.now()\<close> stands for all their calls.
\<close>

definition handleTranscriptions :: "string \<Rightarrow> LiveServerMessage \<Rightarrow> AppState \<Rightarrow> AppState" where
  "handleTranscriptions dateNow message s =
     (case message of
        None \<Rightarrow> s
      | Some serverContent \<Rightarrow>
          (let s1 = (case inputTranscription serverContent of
                       Some fragment \<Rightarrow> appendPartial dateNow User fragment s
                     | None \<Rightarrow> s);
               s2 = (case outputTranscription serverContent of
                       Some fragment \<Rightarrow> appendPartial dateNow Model fragment s1
                     | None \<Rightarrow> s1)
           in if turnComplete serverContent
              then commit dateNow Model (commit dateNow User s2)
              else s2))"

section \<open>Audio output: part 1 of handleLiveMessage (lines 181--212)\<close>

text \<open>
  \<^verbatim>\<open>decode\<close> and \<^verbatim>\<open>decodeAudioData\<close> are imported from \<^verbatim>\<open>utils/audioUtils\<close>. The handler
  uses one thing of their result, the duration of the decoded buffer, so the pair is the
  parameter \<open>decodeAudio\<close>: the duration in seconds for a payload that decodes, \<open>None\<close>
  for one on which either of them throws or rejects.

  Lines 183--186 run before the \<^verbatim>\<open>await\<close>: the indicator is set and the playback cursor
  is raised to the audio clock (\<open>currentTime\<close> is \<^verbatim>\<open>outputContextRef.current.currentTime\<close>).
\<close>

definition beginAudioOutput :: "real \<Rightarrow> AppState \<Rightarrow> AppState" where
  "beginAudioOutput currentTime s =
     s\<lparr>audioMode := Speaking,
       nextStartTimeRef := max (nextStartTimeRef s) currentTime\<rparr>"

text \<open>
  Lines 195--211 run after the \<^verbatim>\<open>await\<close>: a new source node is started at the cursor, the
  cursor advances by the duration of the buffer, and the node joins the set of live
  sources. Registering \<^verbatim>\<open>onended\<close> changes nothing by itself: the browser fires it later
  (\<open>sourceEnded\<close> below).
\<close>

definition startSource :: "real \<Rightarrow> AppState \<Rightarrow> AppState" where
  "startSource duration s =
     (let source = nodeCount s
      in s\<lparr>nodeCount := Suc source,
           started := started s @ [(source, nextStartTimeRef s, duration)],
           nextStartTimeRef := nextStartTimeRef s + duration,
           sourcesRef := (if source \<in> set (sourcesRef s) then sourcesRef s
                          else sourcesRef s @ [source])\<rparr>)"

text \<open>
  The handler is an \<^verbatim>\<open>async\<close> function whose promise nobody awaits or catches
  (\<^verbatim>\<open>onmessage: (msg) => handleLiveMessage(msg)\<close>): when the decoding throws, the promise
  is rejected, the rest of the body (the source node, and parts 2 and 3 for this message)
  never runs, and what was written before the \<^verbatim>\<open>await\<close> stays written. A handler is
  modelled as running to its end before the next event is dispatched. A payload is
  handled when it is a non-empty string and the output context exists.
\<close>

datatype Settled = Fulfilled | Rejected

definition handleLiveMessage ::
  "(string \<Rightarrow> real option) \<Rightarrow> real \<Rightarrow> string \<Rightarrow> LiveServerMessage \<Rightarrow> AppState
     \<Rightarrow> Settled \<times> AppState" where
  "handleLiveMessage decodeAudio currentTime dateNow message s =
     (case (case message of None \<Rightarrow> None | Some serverContent \<Rightarrow> audioData serverContent) of
        Some base64Audio \<Rightarrow>
          (if base64Audio \<noteq> [] \<and> outputContextRef s \<noteq> None
           then (let s1 = beginAudioOutput currentTime s
                 in case decodeAudio base64Audio of
                      None \<Rightarrow> (Rejected, s1)
                    | Some duration \<Rightarrow>
                        (Fulfilled, handleTranscriptions dateNow message (startSource duration s1)))
           else (Fulfilled, handleTranscriptions dateNow message s))
      | None \<Rightarrow> (Fulfilled, handleTranscriptions dateNow message s))"

text \<open>
  The \<^verbatim>\<open>onended\<close> callback of a source node (lines 205--211), and the callback that its
  \<^verbatim>\<open>setTimeout\<close> queues. The browser runs a queued callback once, 200 ms later; nothing
  in the program cancels one.
\<close>

definition sourceEnded :: "nat \<Rightarrow> AppState \<Rightarrow> AppState" where
  "sourceEnded source s =
     (let s1 = s\<lparr>sourcesRef := removeAll source (sourcesRef s)\<rparr>
      in if length (sourcesRef s1) = 0 then s1\<lparr>timeouts := Suc (timeouts s1)\<rparr> else s1)"

definition timeoutFired :: "AppState \<Rightarrow> AppState" where
  "timeoutFired s =
     (if timeouts s = 0 then s
      else s\<lparr>audioMode := Listening, timeouts := timeouts s - 1\<rparr>)"

section \<open>Starting a session: startSession (lines 53--153)\<close>

text \<open>
  \<^verbatim>\<open>String.prototype.trim\<close> on the white space of ASCII (tab, line feed, vertical tab,
  form feed, carriage return, space).
\<close>

definition isWhiteSpace :: "char \<Rightarrow> bool" where
  "isWhiteSpace c = (c \<in> {CHR 0x09, CHR 0x0A, CHR 0x0B, CHR 0x0C, CHR 0x0D, CHR 0x20})"

definition trim :: "string \<Rightarrow> string" where
  "trim s = rev (dropWhile isWhiteSpace (rev (dropWhile isWhiteSpace s)))"

text \<open>
  What the environment decides: the credential \<^verbatim>\<open>process.env.API_KEY\<close>, and how far the
  \<^verbatim>\<open>try\<close> block gets. \<^verbatim>\<open>new AudioContext\<close> may throw, \<^verbatim>\<open>getUserMedia\<close> may reject;
  \<^verbatim>\<open>ai.live.connect\<close> returns a promise that the function stores without awaiting it.
\<close>

datatype Devices = AudioContextUnavailable | MicrophoneDenied | Granted

record StartEnv =
  API_KEY :: "string option"
  devices :: Devices

definition customTopic :: "string \<Rightarrow> Scenario" where
  "customTopic txt =
     \<lparr>id_sc = ''custom'', title = ''Custom Topic'', description = txt,
      icon = [CHR 0xE2, CHR 0x9C, CHR 0xA8]\<rparr>"

text \<open>Lines 69--152: the \<^verbatim>\<open>try\<close> block with its \<^verbatim>\<open>catch\<close>.\<close>

definition openSession :: "Devices \<Rightarrow> Scenario \<Rightarrow> AppState \<Rightarrow> AppState" where
  "openSession dev finalScenario s =
     (case dev of
        AudioContextUnavailable \<Rightarrow> s\<lparr>status := Error\<rparr>
      | MicrophoneDenied \<Rightarrow>
          s\<lparr>inputContextRef := Some \<lparr>sampleRate = INPUT_SAMPLE_RATE, closed = False\<rparr>,
            outputContextRef := Some \<lparr>sampleRate = OUTPUT_SAMPLE_RATE, closed = False\<rparr>,
            nextStartTimeRef := 0,
            status := Error\<rparr>
      | Granted \<Rightarrow>
          s\<lparr>inputContextRef := Some \<lparr>sampleRate = INPUT_SAMPLE_RATE, closed = False\<rparr>,
            outputContextRef := Some \<lparr>sampleRate = OUTPUT_SAMPLE_RATE, closed = False\<rparr>,
            nextStartTimeRef := 0,
            streamRef := Some MediaStream,
            sessionRef := Some (LiveSession (learningMode s) finalScenario)\<rparr>)"

text \<open>
  The function returns the text of the \<^verbatim>\<open>alert\<close> it raised, if any, and the state it
  leaves. A missing credential is an undefined or empty \<^verbatim>\<open>API_KEY\<close>.
\<close>

definition startSession :: "StartEnv \<Rightarrow> AppState \<Rightarrow> string option \<times> AppState" where
  "startSession env s =
     (if API_KEY env = None \<or> API_KEY env = Some []
      then (Some ''API Key is missing in environment variables.'', s)
      else
        (case (if trim (customScenario s) \<noteq> [] then Some (customTopic (customScenario s))
               else selectedScenario s) of
           None \<Rightarrow> (Some ''Please select or define a scenario.'', s)
         | Some finalScenario \<Rightarrow>
             (None, openSession (devices env) finalScenario
                      (s\<lparr>status := Connecting, currentStep := Session, messages := []\<rparr>))))"

text \<open>
  The transport's callbacks (lines 131--143). \<^verbatim>\<open>onopen\<close> calls \<^verbatim>\<open>setupAudioInput\<close>
  (lines 156--174), which creates the script processor when the input context and the
  stream exist.
\<close>

definition setupAudioInput :: "AppState \<Rightarrow> AppState" where
  "setupAudioInput s =
     (if inputContextRef s = None \<or> streamRef s = None then s
      else s\<lparr>scriptProcessorRef := Some ScriptProcessorNode\<rparr>)"

definition onopen :: "AppState \<Rightarrow> AppState" where
  "onopen s = setupAudioInput (s\<lparr>status := Connected\<rparr>)"

definition onclose :: "AppState \<Rightarrow> AppState" where
  "onclose s = s\<lparr>status := Disconnected\<rparr>"

definition onerror :: "AppState \<Rightarrow> AppState" where
  "onerror s = s\<lparr>status := Error\<rparr>"

section \<open>Ending a session: endSession (lines 262--294)\<close>

text \<open>
  Every dereference of the function is guarded (\<^verbatim>\<open>if\<close>, \<^verbatim>\<open>?.\<close>) or is of a value that is
  never null (\<^verbatim>\<open>sourcesRef.current\<close>), and the function has no \<^verbatim>\<open>throw\<close> of its own. Of
  the browser calls it makes, \<^verbatim>\<open>close()\<close> returns a promise (rejected on a context that
  is closed already), which the function drops, and \<^verbatim>\<open>session.close()\<close> runs in a
  \<^verbatim>\<open>then\<close> callback; \<^verbatim>\<open>stop()\<close> on a source node raises \<^verbatim>\<open>InvalidStateError\<close> when
  \<^verbatim>\<open>start()\<close> was never called on that node. The contexts are closed and stay in their
  refs.
\<close>

datatype DOMException = InvalidStateError

definition close_ctx :: "AudioContext \<Rightarrow> AudioContext" where
  "close_ctx c = c\<lparr>closed := True\<rparr>"

text \<open>
  Line 282, \<^verbatim>\<open>sourcesRef.current.forEach(source => source.stop())\<close>: the loop ends at the
  first node that raises, with the nodes before it stopped.
\<close>

fun stopEach :: "nat list \<Rightarrow> AppState \<Rightarrow> DOMException option \<times> AppState" where
  "stopEach [] s = (None, s)"
| "stopEach (source # sources) s =
     (if source \<in> fst ` set (started s)
      then stopEach sources (s\<lparr>stopped := insert source (stopped s)\<rparr>)
      else (Some InvalidStateError, s))"

text \<open>
  The function returns the exception that escaped it, if any, and the state it leaves:
  after an exception, the state with the assignments made before it.
\<close>

definition endSession :: "AppState \<Rightarrow> DOMException option \<times> AppState" where
  "endSession s =
     (let s1 = s\<lparr>sessionRef := None,
                 streamRef := None,
                 scriptProcessorRef :=
                   (if scriptProcessorRef s \<noteq> None \<and> inputContextRef s \<noteq> None then None
                    else scriptProcessorRef s)\<rparr>
      in case stopEach (sourcesRef s1) s1 of
           (Some e, s2) \<Rightarrow> (Some e, s2)
         | (None, s2) \<Rightarrow>
             (None,
              s2\<lparr>sourcesRef := [],
                 inputContextRef := map_option close_ctx (inputContextRef s2),
                 outputContextRef := map_option close_ctx (outputContextRef s2),
                 status := Disconnected,
                 currentStep := Setup,
                 audioMode := Idle,
                 currentInputTransRef := [],
                 currentOutputTransRef := []\<rparr>))"

section \<open>The event loop\<close>

text \<open>
  Everything that runs code of the component: the two buttons, the transport's
  callbacks, a server message (with the audio clock and the wall clock at its arrival),
  the end of a source node and a queued timeout.
\<close>

datatype Event =
    Start StartEnv
  | End
  | Open
  | Close
  | TransportError
  | Message real string LiveServerMessage
  | SourceEnded nat
  | TimeoutFired

fun step :: "(string \<Rightarrow> real option) \<Rightarrow> AppState \<Rightarrow> Event \<Rightarrow> AppState" where
  "step decodeAudio s (Start env) = snd (startSession env s)"
| "step decodeAudio s End = snd (endSession s)"
| "step decodeAudio s Open = onopen s"
| "step decodeAudio s Close = onclose s"
| "step decodeAudio s TransportError = onerror s"
| "step decodeAudio s (Message currentTime dateNow message) =
     snd (handleLiveMessage decodeAudio currentTime dateNow message s)"
| "step decodeAudio s (SourceEnded source) = sourceEnded source s"
| "step decodeAudio s TimeoutFired = timeoutFired s"

definition run :: "(string \<Rightarrow> real option) \<Rightarrow> AppState \<Rightarrow> Event list \<Rightarrow> AppState" where
  "run decodeAudio s events = foldl (step decodeAudio) s events"

section \<open>The audio codec\<close>

text \<open>
  \<^verbatim>\<open>utils/audioUtils\<close> (\<^verbatim>\<open>createBlob\<close>, \<^verbatim>\<open>decode\<close>, \<^verbatim>\<open>decodeAudioData\<close>) is imported by App.tsx
  and is not among the sources: this section follows section 4.1 of the specification.
  Samples are real numbers here.
\<close>

text \<open>
  Modelled from the spec: \<^verbatim>\<open>clamp(s,-1,1)\<close> of the missing \<^verbatim>\<open>utils/audioUtils\<close> brings a
  sample into \<open>[-1, 1]\<close>; out-of-range inputs are clamped, never rejected.
\<close>

definition clamp :: "real \<Rightarrow> real \<Rightarrow> real \<Rightarrow> real" where
  "clamp x lo hi = max lo (min hi x)"

text \<open>
  Modelled from the spec: the missing \<^verbatim>\<open>utils/audioUtils\<close> maps each sample to a 16-bit
  signed integer via \<^verbatim>\<open>clamp(s,-1,1) * 32767\<close>, rounded to the nearest integer.
\<close>

definition encodeSample :: "real \<Rightarrow> 16 word" where
  "encodeSample x = word_of_int (round (clamp x (- 1) 1 * 32767))"

text \<open>
  Modelled from the spec: the missing \<^verbatim>\<open>utils/audioUtils\<close> writes a 16-bit integer
  little-endian, low byte first.
\<close>

definition int16Bytes :: "16 word \<Rightarrow> 8 word list" where
  "int16Bytes w = [ucast w, ucast (drop_bit 8 w)]"

text \<open>
  Modelled from the spec: \<^verbatim>\<open>encode(samples, sampleRate) -> bytes\<close> of the missing
  \<^verbatim>\<open>utils/audioUtils\<close> concatenates the encoded samples in order; the sample rate goes
  into the MIME tag only.
\<close>

definition encode :: "real list \<Rightarrow> nat \<Rightarrow> 8 word list" where
  "encode samples hz = concat (map (\<lambda>x. int16Bytes (encodeSample x)) samples)"

text \<open>
  Modelled from the spec: the missing \<^verbatim>\<open>utils/audioUtils\<close> reinterprets byte pairs as
  little-endian 16-bit signed integers.
\<close>

fun int16Array :: "8 word list \<Rightarrow> 16 word list" where
  "int16Array (lo # hi # bytes) = (ucast lo OR push_bit 8 (ucast hi)) # int16Array bytes"
| "int16Array bytes = []"

text \<open>
  Modelled from the spec: the errors of the missing \<^verbatim>\<open>utils/audioUtils\<close> (sections 4.1
  and 7), and the audio chunk of section 3 (sample buffer, sample rate, channel count).
\<close>

datatype CodecError = DecodeError | MalformedAudioError

record AudioChunk =
  samples :: "real list"
  rate :: nat
  channels :: nat

text \<open>
  Modelled from the spec: \<^verbatim>\<open>bytesToAudioBuffer(bytes, sampleRate, channels)\<close> of the missing
  \<^verbatim>\<open>utils/audioUtils\<close> rescales each integer by dividing by 32768, and fails with
  \<^verbatim>\<open>MalformedAudioError\<close> when the byte length is not a multiple of 2.
\<close>

definition bytesToAudioBuffer :: "8 word list \<Rightarrow> nat \<Rightarrow> nat \<Rightarrow> CodecError + AudioChunk" where
  "bytesToAudioBuffer bytes hz numChannels =
     (if odd (length bytes) then Inl MalformedAudioError
      else Inr \<lparr>samples = map (\<lambda>w. real_of_int (sint w) / 32768) (int16Array bytes),
                rate = hz, channels = numChannels\<rparr>)"

section \<open>Reading the playback log and the transcript\<close>


definition duration :: "AppState \<Rightarrow> nat \<Rightarrow> real" where
  "duration s i = snd (snd (started s ! i))"

text \<open>
  A sequence of transcription fragments, each with its time stamp and its speaker,
  handled in order.
\<close>

definition appendPartials :: "AppState \<Rightarrow> (string \<times> Role \<times> string option) list \<Rightarrow> AppState" where
  "appendPartials s fragments = foldl (\<lambda>s (dateNow, role, fragment). appendPartial dateNow role fragment s) s fragments"

section \<open>Ending a session: properties\<close>


text \<open>The loop writes to \<open>stopped\<close> only, whether it raises or not.\<close>

lemma stopEach_frame: "\<exists>st. snd (stopEach sources s) = s\<lparr>stopped := st\<rparr>"
proof (induction sources arbitrary: s)
  case Nil
  have "snd (stopEach [] s) = s\<lparr>stopped := stopped s\<rparr>" by simp
  then show ?case by blast
next
  case (Cons source sources)
  show ?case
  proof (cases "source \<in> fst ` set (started s)")
    case True
    from Cons [of "s\<lparr>stopped := insert source (stopped s)\<rparr>"] True show ?thesis
      by auto
  next
    case False
    then have "snd (stopEach (source # sources) s) = s\<lparr>stopped := stopped s\<rparr>" by simp
    then show ?thesis by blast
  qed
qed


lemma endSession_frame:
  "messages (snd (endSession s)) = messages s"
  "started (snd (endSession s)) = started s"
  "nextStartTimeRef (snd (endSession s)) = nextStartTimeRef s"
  "timeouts (snd (endSession s)) = timeouts s"
proof -
  let ?s1 = "s\<lparr>sessionRef := None, streamRef := None,
      scriptProcessorRef :=
        (if scriptProcessorRef s \<noteq> None \<and> inputContextRef s \<noteq> None then None
         else scriptProcessorRef s)\<rparr>"
  obtain e s2 where r: "stopEach (sourcesRef ?s1) ?s1 = (e, s2)"
    by (cases "stopEach (sourcesRef ?s1) ?s1")
  from stopEach_frame [of "sourcesRef ?s1" ?s1] r obtain st where s2: "s2 = ?s1\<lparr>stopped := st\<rparr>"
    by auto
  from r show "messages (snd (endSession s)) = messages s"
    "started (snd (endSession s)) = started s"
    "nextStartTimeRef (snd (endSession s)) = nextStartTimeRef s"
    "timeouts (snd (endSession s)) = timeouts s"
    by (cases e; simp add: endSession_def s2)+
qed











section \<open>The message log: what empties it\<close>

lemma updateLastMessage_not_Nil: "updateLastMessage d r t p prev \<noteq> []"
  by (simp add: updateLastMessage_def)

lemma messages_appendPartial_not_Nil: "messages (appendPartial d r f s) \<noteq> []"
  by (cases r) (simp_all add: Let_def updateLastMessage_not_Nil)

lemma messages_commit_not_Nil: "messages s \<noteq> [] \<Longrightarrow> messages (commit d r s) \<noteq> []"
  by (cases r) (simp_all add: updateLastMessage_not_Nil)

lemma messages_handleTranscriptions_not_Nil:
  "messages s \<noteq> [] \<Longrightarrow> messages (handleTranscriptions d m s) \<noteq> []"
  by (simp add: handleTranscriptions_def Let_def messages_appendPartial_not_Nil
      messages_commit_not_Nil del: appendPartial.simps commit.simps split: option.splits)

lemma messages_handleLiveMessage_not_Nil:
  "messages s \<noteq> [] \<Longrightarrow> messages (snd (handleLiveMessage dec t d m s)) \<noteq> []"
  by (simp add: handleLiveMessage_def Let_def beginAudioOutput_def startSource_def
      messages_handleTranscriptions_not_Nil split: option.splits)

lemma step_empties_messages:
  "messages s \<noteq> [] \<Longrightarrow> messages (step dec s e) = [] \<Longrightarrow> \<exists>env. e = Start env"
  by (cases e) (simp_all add: messages_handleLiveMessage_not_Nil endSession_frame onopen_def
      setupAudioInput_def onclose_def onerror_def sourceEnded_def timeoutFired_def Let_def
      split: if_splits)

lemma startSession_resets_messages:
  "startSession env s = (None, s') \<Longrightarrow> messages s' = []"
  by (auto simp: startSession_def openSession_def split: if_splits option.splits Devices.splits)

text \<open>
  Claim C10. \<^verbatim>\<open>endSession\<close> leaves the message log as it is: the same messages, unchanged
  and in the same order. A \<^verbatim>\<open>startSession\<close> that passes its two checks empties the log,
  and of all events only a start can turn a non-empty log into the empty one.
\<close>

theorem endSession_keeps_messages:
  "messages (snd (endSession s)) = messages s
   \<and> (startSession env s = (None, s') \<longrightarrow> messages s' = [])
   \<and> (messages s \<noteq> [] \<and> messages (step dec s e) = [] \<longrightarrow> (\<exists>env'. e = Start env'))"
  using startSession_resets_messages [of env s s'] step_empties_messages [of s dec e]
  by (simp add: endSession_frame)

theorem endSession_keeps_messages_witness:
  "messages (snd (endSession
      (initialState\<lparr>customScenario := ''Job Interview'',
         messages := [\<lparr>id_cm = ''1'', role_cm = User, text_cm = ''Hello'',
                       isPartial = Some False, correction = None\<rparr>]\<rparr>)))
     = [\<lparr>id_cm = ''1'', role_cm = User, text_cm = ''Hello'',
         isPartial = Some False, correction = None\<rparr>]
   \<and> fst (startSession \<lparr>API_KEY = Some ''key'', devices = Granted\<rparr>
      (initialState\<lparr>customScenario := ''Job Interview'',
         messages := [\<lparr>id_cm = ''1'', role_cm = User, text_cm = ''Hello'',
                       isPartial = Some False, correction = None\<rparr>]\<rparr>)) = None
   \<and> messages (step (\<lambda>b. None)
      (initialState\<lparr>customScenario := ''Job Interview'',
         messages := [\<lparr>id_cm = ''1'', role_cm = User, text_cm = ''Hello'',
                       isPartial = Some False, correction = None\<rparr>]\<rparr>)
      (Start \<lparr>API_KEY = Some ''key'', devices = Granted\<rparr>)) = []"
  using endSession_keeps_messages
    [of "initialState\<lparr>customScenario := ''Job Interview'',
           messages := [\<lparr>id_cm = ''1'', role_cm = User, text_cm = ''Hello'',
                         isPartial = Some False, correction = None\<rparr>]\<rparr>"
        "\<lparr>API_KEY = Some ''key'', devices = Granted\<rparr>"
        "snd (startSession \<lparr>API_KEY = Some ''key'', devices = Granted\<rparr>
           (initialState\<lparr>customScenario := ''Job Interview'',
              messages := [\<lparr>id_cm = ''1'', role_cm = User, text_cm = ''Hello'',
                            isPartial = Some False, correction = None\<rparr>]\<rparr>))"
        "\<lambda>b. None"
        "Start \<lparr>API_KEY = Some ''key'', devices = Granted\<rparr>"]
  by (simp add: initialState_def startSession_def trim_def isWhiteSpace_def)

section \<open>Committing a transcript\<close>

text \<open>
  Claim C8. Committing is idempotent for either speaker: a second commit right after
  the first, with no fragment in between, leaves the whole state (the log and both
  buffers in it) as the first commit left it.
\<close>

theorem commit_idempotent: "commit d2 r (commit d1 r s) = commit d1 r s"
  by (cases r) simp_all

section \<open>The codec: quantisation error\<close>

lemma int16Array_encode: "int16Array (encode xs hz) = map encodeSample xs"
  by (induction xs)
    (simp_all add: encode_def int16Bytes_def, (rule bit_word_eqI, auto simp: bit_simps)?)

lemma length_encode: "length (encode xs hz) = 2 * length xs"
  by (induction xs) (simp_all add: encode_def int16Bytes_def)

lemma round_scaled_range:
  assumes "- 1 \<le> x" "x \<le> (1::real)"
  shows "- 32767 \<le> round (x * 32767) \<and> round (x * 32767) \<le> 32767"
proof -
  have "round (x * 32767) \<le> round (32767::real)"
    using assms by (intro round_mono) simp
  moreover have "round (- 32767::real) \<le> round (x * 32767)"
    using assms by (intro round_mono) simp
  ultimately show ?thesis by simp
qed

lemma sint_encodeSample:
  assumes "- 1 \<le> x" "x \<le> (1::real)"
  shows "sint (encodeSample x) = round (x * 32767)"
proof -
  have c: "clamp x (- 1) 1 = x"
    using assms by (simp add: clamp_def)
  have "signed_take_bit 15 (round (x * 32767)) = round (x * 32767)"
    using round_scaled_range [OF assms] by (intro signed_take_bit_int_eq_self) simp_all
  then show ?thesis
    by (simp add: encodeSample_def c sint_sbintrunc')
qed

lemma quantisation_error:
  assumes "- 1 \<le> x" "x \<le> (1::real)"
  shows "\<bar>real_of_int (round (x * 32767)) / 32768 - x\<bar> \<le> 3 / 65536"
proof -
  define k where "k = real_of_int (round (x * 32767))"
  have "\<bar>k - x * 32767\<bar> \<le> 1 / 2"
    unfolding k_def by (rule of_int_round_abs_le)
  with assms have "\<bar>k / 32768 - x\<bar> \<le> 3 / 65536"
    by (simp only: abs_le_iff) linarith
  then show ?thesis
    by (simp only: k_def)
qed

lemma round_example: "round (4294737923 / 131072 :: real) = 32766"
  by (rule round_unique) simp_all

text \<open>
  Claim C5, as stated, fails. The sample \<open>131069 / 131072\<close> (a 32-bit float, and every
  operation on it below is exact in double precision) is encoded as the integer 32766
  and decoded as \<open>16383 / 16384\<close>; the error is \<open>5 / 131072\<close>, above \<open>1 / 32768\<close>.
\<close>

theorem codec_error_counterexample:
  "bytesToAudioBuffer (encode [131069 / 131072] 16000) 16000 1
     = Inr \<lparr>samples = [16383 / 16384], rate = 16000, channels = 1\<rparr>
   \<and> \<not> \<bar>16383 / 16384 - 131069 / 131072 :: real\<bar> \<le> 1 / 32768"
  by (simp add: bytesToAudioBuffer_def encode_def int16Bytes_def encodeSample_def clamp_def
      round_example)

text \<open>
  Claim C5, amended. For every sequence of samples in \<open>[-1, 1]\<close>, decoding its encoding
  succeeds, gives as many samples, and each differs from the original by at most
  \<open>1.5 / 32768\<close>: half a step from the rounding, and up to one step from encoding with
  the factor 32767 and decoding with the divisor 32768.
\<close>

theorem codec_roundtrip_error:
  assumes "\<forall>x\<in>set s. - 1 \<le> x \<and> x \<le> 1"
  shows "\<exists>chunk. bytesToAudioBuffer (encode s hz) hz' n = Inr chunk
           \<and> length (samples chunk) = length s
           \<and> (\<forall>i<length s. \<bar>samples chunk ! i - s ! i\<bar> \<le> 3 / 65536)"
proof -
  have "\<bar>real_of_int (sint (encodeSample (s ! i))) / 32768 - s ! i\<bar> \<le> 3 / 65536"
    if "i < length s" for i
  proof -
    from that assms have r: "- 1 \<le> s ! i" "s ! i \<le> 1"
      by simp_all
    show ?thesis
      using quantisation_error [OF r] by (simp add: sint_encodeSample [OF r])
  qed
  then show ?thesis
    by (simp add: bytesToAudioBuffer_def length_encode int16Array_encode)
qed

theorem codec_roundtrip_error_witness:
  "- 1 \<le> (131069 / 131072 :: real) \<and> (131069 / 131072 :: real) \<le> 1
   \<and> (\<exists>chunk. bytesToAudioBuffer (encode [131069 / 131072, - 1] 16000) 16000 1 = Inr chunk
           \<and> length (samples chunk) = length [131069 / 131072, - 1 :: real]
           \<and> \<bar>samples chunk ! 0 - 131069 / 131072\<bar> \<le> 3 / 65536
           \<and> \<bar>samples chunk ! 1 - (- 1)\<bar> \<le> 3 / 65536)"
proof -
  have h: "\<forall>x\<in>set [131069 / 131072, - 1 :: real]. - 1 \<le> x \<and> x \<le> 1"
    by simp
  from codec_roundtrip_error [OF h, of 16000 16000 1] obtain chunk where
    c: "bytesToAudioBuffer (encode [131069 / 131072, - 1] 16000) 16000 1 = Inr chunk"
       "length (samples chunk) = length [131069 / 131072, - 1 :: real]"
       "\<forall>i<length [131069 / 131072, - 1 :: real].
          \<bar>samples chunk ! i - [131069 / 131072, - 1] ! i\<bar> \<le> 3 / 65536"
    by blast
  from c(3) [rule_format, of 0] have "\<bar>samples chunk ! 0 - 131069 / 131072\<bar> \<le> 3 / 65536"
    by simp
  moreover from c(3) [rule_format, of 1] have "\<bar>samples chunk ! 1 - (- 1)\<bar> \<le> 3 / 65536"
    by simp
  ultimately show ?thesis
    using c(1,2) by simp
qed

section \<open>Playback: chunks are scheduled back to back\<close>

lemma appendPartial_playback:
  "started (appendPartial d r f s) = started s"
  "nextStartTimeRef (appendPartial d r f s) = nextStartTimeRef s"
  by (cases r; simp add: Let_def)+

lemma commit_playback:
  "started (commit d r s) = started s"
  "nextStartTimeRef (commit d r s) = nextStartTimeRef s"
  by (cases r; simp)+

lemma handleTranscriptions_playback:
  "started (handleTranscriptions d m s) = started s"
  "nextStartTimeRef (handleTranscriptions d m s) = nextStartTimeRef s"
  by (simp_all add: handleTranscriptions_def Let_def appendPartial_playback commit_playback
      del: appendPartial.simps commit.simps split: option.splits)

text \<open>A handler whose payload decodes starts one source, at the raised cursor.\<close>

lemma handleLiveMessage_scheduled:
  assumes "message = Some serverContent" "audioData serverContent = Some base64Audio"
    "base64Audio \<noteq> []" "outputContextRef s \<noteq> None" "decodeAudio base64Audio = Some d"
  shows "started (snd (handleLiveMessage decodeAudio now dateNow message s))
           = started s @ [(nodeCount s, max (nextStartTimeRef s) now, d)]"
    and "nextStartTimeRef (snd (handleLiveMessage decodeAudio now dateNow message s))
           = max (nextStartTimeRef s) now + d"
  using assms
  by (simp_all add: handleLiveMessage_def handleTranscriptions_playback Let_def
      startSource_def beginAudioOutput_def)







section \<open>The transcript: fragments and speakers\<close>

lemma updateLastMessage_snoc:
  "updateLastMessage d r t p (ys @ [y]) =
     (if role_cm y = r \<and> isPartial y = Some True
      then ys @ [y\<lparr>text_cm := t, isPartial := Some p\<rparr>]
      else ys @ [y, \<lparr>id_cm = d, role_cm = r, text_cm = t, isPartial = Some p, correction = None\<rparr>])"
  by (simp add: updateLastMessage_def)

text \<open>
  An update keeps every message of the log in its place and with its speaker, and
  changes at most the last one, and that only when it is a partial message of the
  speaker of the update.
\<close>

lemma updateLastMessage_nth:
  assumes "i < length prev"
  shows "i < length (updateLastMessage d r t p prev)"
    and "role_cm (updateLastMessage d r t p prev ! i) = role_cm (prev ! i)"
    and "id_cm (updateLastMessage d r t p prev ! i) = id_cm (prev ! i)"
    and "role_cm (prev ! i) \<noteq> r \<or> isPartial (prev ! i) \<noteq> Some True \<or> Suc i < length prev
           \<Longrightarrow> updateLastMessage d r t p prev ! i = prev ! i"
proof -
  from assms obtain ys y where prev: "prev = ys @ [y]"
    by (cases prev rule: rev_cases) simp_all
  show "i < length (updateLastMessage d r t p prev)"
    using assms by (simp add: prev updateLastMessage_snoc)
  show "role_cm (updateLastMessage d r t p prev ! i) = role_cm (prev ! i)"
    using assms by (simp add: prev updateLastMessage_snoc nth_append)
  show "id_cm (updateLastMessage d r t p prev ! i) = id_cm (prev ! i)"
    using assms by (simp add: prev updateLastMessage_snoc nth_append)
  show "updateLastMessage d r t p prev ! i = prev ! i"
    if "role_cm (prev ! i) \<noteq> r \<or> isPartial (prev ! i) \<noteq> Some True \<or> Suc i < length prev"
    using assms that by (auto simp: prev updateLastMessage_snoc nth_append)
qed

lemma updateLastMessage_last:
  "role_cm (last (updateLastMessage d r t p prev)) = r"
  "text_cm (last (updateLastMessage d r t p prev)) = t"
  "isPartial (last (updateLastMessage d r t p prev)) = Some p"
  by (simp_all add: updateLastMessage_def)

lemma messages_appendPartial:
  "messages (appendPartial d r f s)
     = updateLastMessage d r
         (js_concat (case r of User \<Rightarrow> currentInputTransRef s | Model \<Rightarrow> currentOutputTransRef s) f)
         True (messages s)"
  by (cases r) (simp_all add: Let_def)

lemma appendPartials_Cons:
  "appendPartials s ((d, r, f) # fs) = appendPartials (appendPartial d r f s) fs"
  by (simp add: appendPartials_def)

lemma appendPartial_nth:
  assumes "i < length (messages s)"
  shows "i < length (messages (appendPartial d r f s))"
    and "role_cm (messages (appendPartial d r f s) ! i) = role_cm (messages s ! i)"
    and "role_cm (messages s ! i) \<noteq> r \<or> isPartial (messages s ! i) \<noteq> Some True
           \<or> Suc i < length (messages s)
           \<Longrightarrow> messages (appendPartial d r f s) ! i = messages s ! i"
  unfolding messages_appendPartial
  using assms by (rule updateLastMessage_nth(1), rule updateLastMessage_nth(2),
      rule updateLastMessage_nth(4))

lemma appendPartials_nth:
  assumes "i < length (messages s)"
  shows "i < length (messages (appendPartials s fs))
     \<and> role_cm (messages (appendPartials s fs) ! i) = role_cm (messages s ! i)
     \<and> (isPartial (messages s ! i) \<noteq> Some True \<or> Suc i < length (messages s)
          \<longrightarrow> messages (appendPartials s fs) ! i = messages s ! i)"
  using assms
proof (induction fs arbitrary: s)
  case Nil
  then show ?case by (simp add: appendPartials_def)
next
  case (Cons x fs)
  obtain d r f where x: "x = (d, r, f)"
    by (cases x)
  let ?s1 = "appendPartial d r f s"
  let ?s2 = "appendPartials ?s1 fs"
  note i = Cons.prems
  have 1: "i < length (messages ?s1)"
    by (rule appendPartial_nth(1) [OF i])
  have 2: "role_cm (messages ?s1 ! i) = role_cm (messages s ! i)"
    by (rule appendPartial_nth(2) [OF i])
  from Cons.IH [OF 1] have len: "i < length (messages ?s2)"
    and role: "role_cm (messages ?s2 ! i) = role_cm (messages ?s1 ! i)"
    and keep: "isPartial (messages ?s1 ! i) \<noteq> Some True \<or> Suc i < length (messages ?s1)
                 \<longrightarrow> messages ?s2 ! i = messages ?s1 ! i"
    by simp_all
  have "messages ?s2 ! i = messages s ! i"
    if h: "isPartial (messages s ! i) \<noteq> Some True \<or> Suc i < length (messages s)"
  proof -
    from h have 3: "messages ?s1 ! i = messages s ! i"
      by (intro appendPartial_nth(3) [OF i]) blast
    from h have "isPartial (messages ?s1 ! i) \<noteq> Some True \<or> Suc i < length (messages ?s1)"
    proof
      assume "isPartial (messages s ! i) \<noteq> Some True"
      then show ?thesis by (simp add: 3)
    next
      assume "Suc i < length (messages s)"
      then have "Suc i < length (messages ?s1)"
        by (rule appendPartial_nth(1))
      then show ?thesis ..
    qed
    with keep 3 show ?thesis by simp
  qed
  with len role 2 show ?case
    by (simp add: x appendPartials_Cons)
qed

text \<open>
  Claim C9. One fragment of a speaker changes no message of the other speaker, and the
  message that shows it (the last of the log) is the speaker's own. Over any sequence
  of fragments of both speakers, every message of the log stays at its index and keeps
  its speaker, and a message that is final is not modified.
\<close>

theorem appendPartial_respects_speakers:
  "(\<forall>i<length (messages s). role_cm (messages s ! i) \<noteq> r
       \<longrightarrow> messages (appendPartial dateNow r fragment s) ! i = messages s ! i)
   \<and> role_cm (last (messages (appendPartial dateNow r fragment s))) = r
   \<and> (\<forall>i<length (messages s).
         i < length (messages (appendPartials s fragments))
         \<and> role_cm (messages (appendPartials s fragments) ! i) = role_cm (messages s ! i)
         \<and> (isPartial (messages s ! i) \<noteq> Some True
              \<longrightarrow> messages (appendPartials s fragments) ! i = messages s ! i))"
proof (intro conjI allI impI)
  fix i
  assume "i < length (messages s)" "role_cm (messages s ! i) \<noteq> r"
  then show "messages (appendPartial dateNow r fragment s) ! i = messages s ! i"
    by (intro appendPartial_nth(3)) simp_all
next
  show "role_cm (last (messages (appendPartial dateNow r fragment s))) = r"
    by (simp only: messages_appendPartial updateLastMessage_last)
next
  fix i
  assume i: "i < length (messages s)"
  from appendPartials_nth [OF i, of fragments]
  show "i < length (messages (appendPartials s fragments))"
    and "role_cm (messages (appendPartials s fragments) ! i) = role_cm (messages s ! i)"
    by simp_all
  assume "isPartial (messages s ! i) \<noteq> Some True"
  with appendPartials_nth [OF i, of fragments]
  show "messages (appendPartials s fragments) ! i = messages s ! i"
    by simp
qed

theorem appendPartial_respects_speakers_witness:
  "messages (appendPartial ''3'' User (Some ''ok'')
      (initialState\<lparr>currentOutputTransRef := ''He'',
         messages := [\<lparr>id_cm = ''1'', role_cm = User, text_cm = ''Hi'',
                       isPartial = Some False, correction = None\<rparr>,
                      \<lparr>id_cm = ''2'', role_cm = Model, text_cm = ''He'',
                       isPartial = Some True, correction = None\<rparr>]\<rparr>)) ! 1
     = \<lparr>id_cm = ''2'', role_cm = Model, text_cm = ''He'', isPartial = Some True, correction = None\<rparr>
   \<and> messages (appendPartials
      (initialState\<lparr>currentOutputTransRef := ''He'',
         messages := [\<lparr>id_cm = ''1'', role_cm = User, text_cm = ''Hi'',
                       isPartial = Some False, correction = None\<rparr>,
                      \<lparr>id_cm = ''2'', role_cm = Model, text_cm = ''He'',
                       isPartial = Some True, correction = None\<rparr>]\<rparr>)
      [(''3'', Model, Some ''llo''), (''4'', User, Some ''ok''), (''5'', Model, Some ''!'')]) ! 0
     = \<lparr>id_cm = ''1'', role_cm = User, text_cm = ''Hi'', isPartial = Some False, correction = None\<rparr>
   \<and> map (\<lambda>m. (role_cm m, text_cm m)) (messages (appendPartials
      (initialState\<lparr>currentOutputTransRef := ''He'',
         messages := [\<lparr>id_cm = ''1'', role_cm = User, text_cm = ''Hi'',
                       isPartial = Some False, correction = None\<rparr>,
                      \<lparr>id_cm = ''2'', role_cm = Model, text_cm = ''He'',
                       isPartial = Some True, correction = None\<rparr>]\<rparr>)
      [(''3'', Model, Some ''llo''), (''4'', User, Some ''ok''), (''5'', Model, Some ''!'')]))
     = [(User, ''Hi''), (Model, ''Hello''), (User, ''ok''), (Model, ''Hello!'')]"
  using appendPartial_respects_speakers
    [of "initialState\<lparr>currentOutputTransRef := ''He'',
         messages := [\<lparr>id_cm = ''1'', role_cm = User, text_cm = ''Hi'',
                       isPartial = Some False, correction = None\<rparr>,
                      \<lparr>id_cm = ''2'', role_cm = Model, text_cm = ''He'',
                       isPartial = Some True, correction = None\<rparr>]\<rparr>"
        User "''3''" "Some ''ok''"
        "[(''3'', Model, Some ''llo''), (''4'', User, Some ''ok''), (''5'', Model, Some ''!'')]"]
  by (simp add: initialState_def appendPartials_def updateLastMessage_def js_concat_def Let_def)

section \<open>The transcript: committing after an interleaving\<close>

text \<open>
  Claim C2 fails on the code. The user's words arrive, then the model's reply, then the
  turn-complete marker: the commit of the user finds the model's message last, so it
  appends a final copy instead of finishing the user's partial message, and the commit
  of the model then finds that copy last and appends as well. The log ends with both
  partial messages still partial and a final duplicate of each. Likewise a fragment of
  the user after a fragment of the model finds the model's message last and opens a
  second partial message of the user.
\<close>

theorem commit_after_reply_duplicates:
  "map (\<lambda>m. (role_cm m, text_cm m, isPartial m))
     (messages (run (\<lambda>b. None) initialState
        [Message 0 ''1'' (Some \<lparr>audioData = None, inputTranscription = Some (Some ''Hello''),
                                 outputTranscription = None, turnComplete = False\<rparr>),
         Message 0 ''2'' (Some \<lparr>audioData = None, inputTranscription = None,
                                 outputTranscription = Some (Some ''Hi''), turnComplete = False\<rparr>),
         Message 0 ''3'' (Some \<lparr>audioData = None, inputTranscription = None,
                                 outputTranscription = None, turnComplete = True\<rparr>)]))
   = [(User, ''Hello'', Some True), (Model, ''Hi'', Some True),
      (User, ''Hello'', Some False), (Model, ''Hi'', Some False)]
   \<and> map (\<lambda>m. (role_cm m, text_cm m, isPartial m))
     (messages (appendPartials initialState
        [(''1'', User, Some ''a''), (''2'', Model, Some ''b''), (''3'', User, Some ''c'')]))
   = [(User, ''a'', Some True), (Model, ''b'', Some True), (User, ''ac'', Some True)]"
  by (simp add: run_def initialState_def handleLiveMessage_def handleTranscriptions_def
      appendPartials_def updateLastMessage_def js_concat_def Let_def)

section \<open>A decoding failure\<close>

text \<open>
  Claim C4. When the audio payload of a message fails to decode, the handler's promise
  is rejected and the state is as before but for the indicator and the cursor raised to
  the audio clock: the message log, the live sources and the status are unchanged, and
  the session goes on. A later message whose payload decodes is then handled exactly
  as from the state before the failure (the audio clock does not go back), and its
  chunk starts at \<open>max nextStartTime audioClockNow\<close>.
\<close>

theorem decode_failure_isolated:
  assumes "bad = Some badContent" "audioData badContent = Some corrupted" "corrupted \<noteq> []"
    "decodeAudio corrupted = None" "outputContextRef s \<noteq> None"
  shows "handleLiveMessage decodeAudio t1 d1 bad s
           = (Rejected, s\<lparr>audioMode := Speaking,
                           nextStartTimeRef := max (nextStartTimeRef s) t1\<rparr>)
    \<and> messages (snd (handleLiveMessage decodeAudio t1 d1 bad s)) = messages s
    \<and> sourcesRef (snd (handleLiveMessage decodeAudio t1 d1 bad s)) = sourcesRef s
    \<and> status (snd (handleLiveMessage decodeAudio t1 d1 bad s)) = status s
    \<and> (good = Some goodContent \<and> audioData goodContent = Some wellFormed \<and> wellFormed \<noteq> []
          \<and> decodeAudio wellFormed = Some d \<and> t1 \<le> t2
        \<longrightarrow> handleLiveMessage decodeAudio t2 d2 good (snd (handleLiveMessage decodeAudio t1 d1 bad s))
              = handleLiveMessage decodeAudio t2 d2 good s
          \<and> started (snd (handleLiveMessage decodeAudio t2 d2 good
                (snd (handleLiveMessage decodeAudio t1 d1 bad s))))
              = started s @ [(nodeCount s, max (nextStartTimeRef s) t2, d)])"
proof -
  have bad: "handleLiveMessage decodeAudio t1 d1 bad s = (Rejected, beginAudioOutput t1 s)"
    using assms by (simp add: handleLiveMessage_def)
  have twice: "beginAudioOutput t2 (beginAudioOutput t1 s) = beginAudioOutput t2 s" if "t1 \<le> t2"
    using that by (simp add: beginAudioOutput_def max.assoc max_absorb2)
  have ctx: "outputContextRef (beginAudioOutput t1 s) \<noteq> None"
    using assms(5) by (simp add: beginAudioOutput_def)
  have "handleLiveMessage decodeAudio t2 d2 good (beginAudioOutput t1 s)
          = handleLiveMessage decodeAudio t2 d2 good s"
    if "good = Some goodContent" "audioData goodContent = Some wellFormed" "wellFormed \<noteq> []"
      "decodeAudio wellFormed = Some d" "t1 \<le> t2"
    using that assms(5) ctx by (simp add: handleLiveMessage_def twice)
  moreover have "started (snd (handleLiveMessage decodeAudio t2 d2 good s))
          = started s @ [(nodeCount s, max (nextStartTimeRef s) t2, d)]"
    if "good = Some goodContent" "audioData goodContent = Some wellFormed" "wellFormed \<noteq> []"
      "decodeAudio wellFormed = Some d"
    using that assms(5) by (simp add: handleLiveMessage_scheduled(1))
  ultimately show ?thesis
    by (simp add: bad beginAudioOutput_def)
qed

theorem decode_failure_isolated_witness:
  "handleLiveMessage (\<lambda>b. if b = ''AAAA'' then Some 1 else None) 1 ''1''
      (Some \<lparr>audioData = Some ''!!!!'', inputTranscription = None,
              outputTranscription = Some (Some ''lost''), turnComplete = True\<rparr>)
      (initialState\<lparr>outputContextRef := Some \<lparr>sampleRate = 24000, closed = False\<rparr>,
                     currentInputTransRef := ''Hel''\<rparr>)
    = (Rejected,
       initialState\<lparr>outputContextRef := Some \<lparr>sampleRate = 24000, closed = False\<rparr>,
                     currentInputTransRef := ''Hel'', audioMode := Speaking,
                     nextStartTimeRef := 1\<rparr>)
   \<and> handleLiveMessage (\<lambda>b. if b = ''AAAA'' then Some 1 else None) 2 ''2''
      (Some \<lparr>audioData = Some ''AAAA'', inputTranscription = None,
              outputTranscription = None, turnComplete = False\<rparr>)
      (snd (handleLiveMessage (\<lambda>b. if b = ''AAAA'' then Some 1 else None) 1 ''1''
         (Some \<lparr>audioData = Some ''!!!!'', inputTranscription = None,
                 outputTranscription = Some (Some ''lost''), turnComplete = True\<rparr>)
         (initialState\<lparr>outputContextRef := Some \<lparr>sampleRate = 24000, closed = False\<rparr>,
                        currentInputTransRef := ''Hel''\<rparr>)))
    = handleLiveMessage (\<lambda>b. if b = ''AAAA'' then Some 1 else None) 2 ''2''
      (Some \<lparr>audioData = Some ''AAAA'', inputTranscription = None,
              outputTranscription = None, turnComplete = False\<rparr>)
      (initialState\<lparr>outputContextRef := Some \<lparr>sampleRate = 24000, closed = False\<rparr>,
                     currentInputTransRef := ''Hel''\<rparr>)
   \<and> started (snd (handleLiveMessage (\<lambda>b. if b = ''AAAA'' then Some 1 else None) 2 ''2''
      (Some \<lparr>audioData = Some ''AAAA'', inputTranscription = None,
              outputTranscription = None, turnComplete = False\<rparr>)
      (snd (handleLiveMessage (\<lambda>b. if b = ''AAAA'' then Some 1 else None) 1 ''1''
         (Some \<lparr>audioData = Some ''!!!!'', inputTranscription = None,
                 outputTranscription = Some (Some ''lost''), turnComplete = True\<rparr>)
         (initialState\<lparr>outputContextRef := Some \<lparr>sampleRate = 24000, closed = False\<rparr>,
                        currentInputTransRef := ''Hel''\<rparr>)))))
    = [(0, 2, 1)]"
  using decode_failure_isolated
    [where bad = "Some \<lparr>audioData = Some ''!!!!'', inputTranscription = None,
              outputTranscription = Some (Some ''lost''), turnComplete = True\<rparr>"
       and badContent = "\<lparr>audioData = Some ''!!!!'', inputTranscription = None,
              outputTranscription = Some (Some ''lost''), turnComplete = True\<rparr>"
       and corrupted = "''!!!!''"
       and decodeAudio = "\<lambda>b. if b = ''AAAA'' then Some 1 else None"
       and s = "initialState\<lparr>outputContextRef := Some \<lparr>sampleRate = 24000, closed = False\<rparr>,
                     currentInputTransRef := ''Hel''\<rparr>"
       and good = "Some \<lparr>audioData = Some ''AAAA'', inputTranscription = None,
              outputTranscription = None, turnComplete = False\<rparr>"
       and goodContent = "\<lparr>audioData = Some ''AAAA'', inputTranscription = None,
              outputTranscription = None, turnComplete = False\<rparr>"
       and wellFormed = "''AAAA''" and d = 1 and ?t1.0 = 1 and ?t2.0 = 2
       and ?d1.0 = "''1''" and ?d2.0 = "''2''"]
  by (simp add: initialState_def handleLiveMessage_def handleTranscriptions_def
      beginAudioOutput_def startSource_def Let_def)

section \<open>Starting a session: the two checks\<close>

text \<open>
  Claim C7. With a missing credential, or with no selected scenario and a custom text
  that is empty (or only white space), \<^verbatim>\<open>startSession\<close> raises an alert and returns
  with the state exactly as it was: the status is unchanged, and no audio context, no
  microphone stream and no connection has been allocated.
\<close>

theorem startSession_precondition:
  assumes "API_KEY env = None \<or> API_KEY env = Some []
             \<or> (selectedScenario s = None \<and> trim (customScenario s) = [])"
  shows "(\<exists>alert. startSession env s = (Some alert, s))
    \<and> status (snd (startSession env s)) = status s
    \<and> inputContextRef (snd (startSession env s)) = inputContextRef s
    \<and> outputContextRef (snd (startSession env s)) = outputContextRef s
    \<and> streamRef (snd (startSession env s)) = streamRef s
    \<and> sessionRef (snd (startSession env s)) = sessionRef s"
  using assms by (auto simp: startSession_def)

theorem startSession_precondition_witness:
  "startSession \<lparr>API_KEY = None, devices = Granted\<rparr>
       (initialState\<lparr>customScenario := ''Job Interview''\<rparr>)
     = (Some ''API Key is missing in environment variables.'',
        initialState\<lparr>customScenario := ''Job Interview''\<rparr>)
   \<and> startSession \<lparr>API_KEY = Some ''key'', devices = Granted\<rparr> initialState
     = (Some ''Please select or define a scenario.'', initialState)
   \<and> status (snd (startSession \<lparr>API_KEY = Some ''key'', devices = Granted\<rparr> initialState))
     = Disconnected
   \<and> inputContextRef (snd (startSession \<lparr>API_KEY = Some ''key'', devices = Granted\<rparr> initialState))
     = None"
  using startSession_precondition [of "\<lparr>API_KEY = None, devices = Granted\<rparr>"
      "initialState\<lparr>customScenario := ''Job Interview''\<rparr>"]
    startSession_precondition [of "\<lparr>API_KEY = Some ''key'', devices = Granted\<rparr>" initialState]
  by (simp add: startSession_def initialState_def trim_def)

section \<open>Callbacks that outlive a session\<close>

text \<open>
  Claim C6 fails on the code. A session plays one chunk; the chunk ends, and its
  \<^verbatim>\<open>onended\<close> queues the callback that sets the indicator to \<^verbatim>\<open>listening\<close>; the session is
  ended within the 200 ms. Right after \<^verbatim>\<open>endSession\<close> the indicator is \<^verbatim>\<open>idle\<close> and no source
  is live, but nothing cancels the queued callback: it runs and sets the indicator to
  \<^verbatim>\<open>listening\<close>. The same happens when the session is ended while the chunk plays
  (\<^verbatim>\<open>endSession\<close> stops the source) and the stopped source then fires \<^verbatim>\<open>onended\<close>.
\<close>

theorem timeout_after_endSession:
  "audioMode (run (\<lambda>b. if b = ''AAAA'' then Some 1 else None)
       (initialState\<lparr>customScenario := ''Job Interview''\<rparr>)
       [Start \<lparr>API_KEY = Some ''key'', devices = Granted\<rparr>, Open,
        Message 0 ''1'' (Some \<lparr>audioData = Some ''AAAA'', inputTranscription = None,
                                 outputTranscription = None, turnComplete = False\<rparr>),
        SourceEnded 0, End]) = Idle
  \<and> sourcesRef (run (\<lambda>b. if b = ''AAAA'' then Some 1 else None)
       (initialState\<lparr>customScenario := ''Job Interview''\<rparr>)
       [Start \<lparr>API_KEY = Some ''key'', devices = Granted\<rparr>, Open,
        Message 0 ''1'' (Some \<lparr>audioData = Some ''AAAA'', inputTranscription = None,
                                 outputTranscription = None, turnComplete = False\<rparr>),
        SourceEnded 0, End]) = []
  \<and> audioMode (run (\<lambda>b. if b = ''AAAA'' then Some 1 else None)
       (initialState\<lparr>customScenario := ''Job Interview''\<rparr>)
       [Start \<lparr>API_KEY = Some ''key'', devices = Granted\<rparr>, Open,
        Message 0 ''1'' (Some \<lparr>audioData = Some ''AAAA'', inputTranscription = None,
                                 outputTranscription = None, turnComplete = False\<rparr>),
        SourceEnded 0, End, TimeoutFired]) = Listening
  \<and> audioMode (run (\<lambda>b. if b = ''AAAA'' then Some 1 else None)
       (initialState\<lparr>customScenario := ''Job Interview''\<rparr>)
       [Start \<lparr>API_KEY = Some ''key'', devices = Granted\<rparr>, Open,
        Message 0 ''1'' (Some \<lparr>audioData = Some ''AAAA'', inputTranscription = None,
                                 outputTranscription = None, turnComplete = False\<rparr>),
        End, SourceEnded 0, TimeoutFired]) = Listening
  \<and> stopped (run (\<lambda>b. if b = ''AAAA'' then Some 1 else None)
       (initialState\<lparr>customScenario := ''Job Interview''\<rparr>)
       [Start \<lparr>API_KEY = Some ''key'', devices = Granted\<rparr>, Open,
        Message 0 ''1'' (Some \<lparr>audioData = Some ''AAAA'', inputTranscription = None,
                                 outputTranscription = None, turnComplete = False\<rparr>),
        End]) = {0}"
  by (simp add: run_def initialState_def startSession_def openSession_def trim_def isWhiteSpace_def
      onopen_def setupAudioInput_def handleLiveMessage_def handleTranscriptions_def
      beginAudioOutput_def startSource_def sourceEnded_def timeoutFired_def endSession_def
      customTopic_def Let_def)

end
